theory Spec2Isabelle
  imports Main "HOL-Library.Multiset"
begin

section \<open>Data model\<close>

text \<open>
  The risk assessment form (\<open>RiskAssessmentFormModal\<close>) keeps one \<open>RiskAssessment\<close> in
  its state and edits the \<open>RiskItem\<close>s of its \<open>identifiedRisks\<close>. The TypeScript types
  declare the ratings as unions of string literals, but the edit handler takes the new value as
  a plain \<open>string\<close> and stores it through an untyped assignment, so at run time every rating
  field holds a string. The records keep them as strings.

  The handler can also be asked to store a string in \<open>mitigationControls\<close> (its field
  argument ranges over all keys of \<open>RiskItem\<close>), hence the two shapes of \<open>controls\<close>.
  The field \<open>id\<close> of the two interfaces is \<open>itemId\<close> and \<open>assessmentId\<close> here.
\<close>

datatype controls = ControlList "string list" | ControlText string

record RiskItem =
  itemId :: string
  description :: string
  likelihood :: string
  impact :: string
  inherentRisk :: string
  mitigationControls :: controls
  residualRisk :: string

record RiskAssessment =
  assessmentId :: string
  assessmentDate :: string
  assessedBy :: string
  scope :: string
  identifiedRisks :: "RiskItem list"
  overallRiskRating :: string
  mitigationPlan :: string
  status :: string
  reviewDate :: string

text \<open>The keys of \<open>RiskItem\<close>, the type of the handler's \<open>field\<close> argument.\<close>

datatype field =
  F_id | F_description | F_likelihood | F_impact | F_inherentRisk
  | F_mitigationControls | F_residualRisk

text \<open>
  The only run-time failure of the handlers: a property access on \<open>undefined\<close>, when the
  index names no item of the list.
\<close>

datatype error = TypeError

section \<open>The JavaScript values the scoring code computes with\<close>

text \<open>
  Reading a key of an object literal gives the number stored there, \<open>undefined\<close> for an
  unknown key, and a function or object for a key that every object inherits from
  \<open>Object.prototype\<close> (\<open>Inherited\<close>). Arithmetic and comparison convert to a number first,
  which gives \<open>NaN\<close> for everything but a number. The numbers here are small integers, on
  which the floating point operations are exact.
\<close>

datatype jsval = Undefined | Number int | NaN | Inherited

definition objectPrototypeKeys :: "string list" where
  "objectPrototypeKeys =
     [''constructor'', ''__proto__'', ''hasOwnProperty'', ''isPrototypeOf'',
      ''propertyIsEnumerable'', ''toLocaleString'', ''toString'', ''valueOf'',
      ''__defineGetter__'', ''__defineSetter__'', ''__lookupGetter__'', ''__lookupSetter__'']"

definition getProp :: "(string \<times> int) list \<Rightarrow> string \<Rightarrow> jsval" where
  "getProp obj key =
     (case map_of obj key of
        Some n \<Rightarrow> Number n
      | None \<Rightarrow> if key \<in> set objectPrototypeKeys then Inherited else Undefined)"

fun truthy :: "jsval \<Rightarrow> bool" where
  "truthy Undefined = False"
| "truthy (Number n) = (n \<noteq> 0)"
| "truthy NaN = False"
| "truthy Inherited = True"

text \<open>\<open>a || b\<close> on values, and on strings (the empty string is the only falsy one).\<close>

definition jsOr :: "jsval \<Rightarrow> jsval \<Rightarrow> jsval" where
  "jsOr a b = (if truthy a then a else b)"

definition strOr :: "string \<Rightarrow> string \<Rightarrow> string" where
  "strOr s d = (if s = [] then d else s)"

fun toNumber :: "jsval \<Rightarrow> jsval" where
  "toNumber (Number n) = Number n"
| "toNumber Undefined = NaN"
| "toNumber NaN = NaN"
| "toNumber Inherited = NaN"

definition jsMul :: "jsval \<Rightarrow> jsval \<Rightarrow> jsval" where
  "jsMul a b =
     (case (toNumber a, toNumber b) of
        (Number x, Number y) \<Rightarrow> Number (x * y)
      | _ \<Rightarrow> NaN)"

text \<open>
  \<open>a >= b\<close> and \<open>a > b\<close>: false as soon as one side is not a number. (Two inherited
  members would be compared as strings; the code never does that, see
  \<open>foldl_maxRisk_own_key\<close> below.)
\<close>

definition jsGe :: "jsval \<Rightarrow> jsval \<Rightarrow> bool" where
  "jsGe a b =
     (case (toNumber a, toNumber b) of
        (Number x, Number y) \<Rightarrow> x \<ge> y
      | _ \<Rightarrow> False)"

definition jsGt :: "jsval \<Rightarrow> jsval \<Rightarrow> bool" where
  "jsGt a b =
     (case (toNumber a, toNumber b) of
        (Number x, Number y) \<Rightarrow> x > y
      | _ \<Rightarrow> False)"

section \<open>Scoring one item (\<open>handleRiskItemChange\<close>, the recalculation)\<close>

definition likelihoodOrder :: "(string \<times> int) list" where
  "likelihoodOrder = [(''Low'', 1), (''Medium'', 2), (''High'', 3)]"

definition impactOrder :: "(string \<times> int) list" where
  "impactOrder = [(''Low'', 1), (''Medium'', 2), (''High'', 3)]"

definition inherentScore :: "string \<Rightarrow> string \<Rightarrow> jsval" where
  "inherentScore l i =
     jsMul (jsOr (getProp likelihoodOrder (strOr l ''Low'')) (Number 0))
           (jsOr (getProp impactOrder (strOr i ''Low'')) (Number 0))"

definition inherentRiskOf :: "jsval \<Rightarrow> string" where
  "inherentRiskOf s =
     (if jsGe s (Number 6) then ''Critical''
      else if jsGe s (Number 4) then ''High''
      else if jsGe s (Number 2) then ''Medium''
      else ''Low'')"

text \<open>\<open>risk.mitigationControls && risk.mitigationControls.length > 0\<close>\<close>

fun hasMitigation :: "controls \<Rightarrow> bool" where
  "hasMitigation (ControlList cs) = (length cs > 0)"
| "hasMitigation (ControlText s) = (s \<noteq> [] \<and> length s > 0)"

definition residualRiskOf :: "bool \<Rightarrow> string \<Rightarrow> string" where
  "residualRiskOf mitigated inherent =
     (if mitigated \<and> inherent \<noteq> ''Low''
      then (if inherent = ''Critical'' then ''High''
            else if inherent = ''High'' then ''Medium''
            else ''Low'')
      else inherent)"

text \<open>
  The scoring of one item: from likelihood, impact and the presence of mitigation controls to
  the pair (inherent risk, residual risk).
\<close>

definition scoreItem :: "string \<Rightarrow> string \<Rightarrow> bool \<Rightarrow> string \<times> string" where
  "scoreItem l i mitigated =
     (let inherent = inherentRiskOf (inherentScore l i)
      in (inherent, residualRiskOf mitigated inherent))"

definition recalculate :: "RiskItem \<Rightarrow> RiskItem" where
  "recalculate risk =
     (let (inherent, residual) =
            scoreItem (likelihood risk) (impact risk) (hasMitigation (mitigationControls risk))
      in risk\<lparr>inherentRisk := inherent, residualRisk := residual\<rparr>)"

section \<open>The edit handlers of the form\<close>

text \<open>
  The handlers copy the list of items, change one item object in place and store the copy in
  the form state. Every item object occurs once in the list, so the new state is the old one
  with the item at the index replaced. \<open>setField\<close> is \<open>(risk as any)[field] = value\<close>.
\<close>

fun setField :: "field \<Rightarrow> string \<Rightarrow> RiskItem \<Rightarrow> RiskItem" where
  "setField F_id v risk = risk\<lparr>itemId := v\<rparr>"
| "setField F_description v risk = risk\<lparr>description := v\<rparr>"
| "setField F_likelihood v risk = risk\<lparr>likelihood := v\<rparr>"
| "setField F_impact v risk = risk\<lparr>impact := v\<rparr>"
| "setField F_inherentRisk v risk = risk\<lparr>inherentRisk := v\<rparr>"
| "setField F_mitigationControls v risk = risk\<lparr>mitigationControls := ControlText v\<rparr>"
| "setField F_residualRisk v risk = risk\<lparr>residualRisk := v\<rparr>"

definition handleRiskItemChange ::
  "int \<Rightarrow> field \<Rightarrow> string \<Rightarrow> RiskAssessment \<Rightarrow> error + RiskAssessment" where
  "handleRiskItemChange index fld v formState =
     (let updatedRisks = identifiedRisks formState in
      if 0 \<le> index \<and> index < int (length updatedRisks) then
        let risk = setField fld v (updatedRisks ! nat index);
            risk' = (if fld = F_likelihood \<or> fld = F_impact then recalculate risk else risk)
        in Inr (formState\<lparr>identifiedRisks := updatedRisks[nat index := risk']\<rparr>)
      else Inl TypeError)"

text \<open>The identifier comes from \<open>generateId()\<close> (a counter and the clock): a parameter here.\<close>

definition handleAddRiskItem :: "string \<Rightarrow> RiskAssessment \<Rightarrow> RiskAssessment" where
  "handleAddRiskItem newId prev =
     prev\<lparr>identifiedRisks := identifiedRisks prev @
       [\<lparr>itemId = newId, description = '''', likelihood = ''Low'', impact = ''Low'',
         inherentRisk = ''Low'', mitigationControls = ControlList [],
         residualRisk = ''Low''\<rparr>]\<rparr>"

definition handleRemoveRiskItem :: "string \<Rightarrow> RiskAssessment \<Rightarrow> RiskAssessment" where
  "handleRemoveRiskItem rid prev =
     prev\<lparr>identifiedRisks := filter (\<lambda>item. itemId item \<noteq> rid) (identifiedRisks prev)\<rparr>"

text \<open>
  \<open>value.split(',').map(s => s.trim()).filter(Boolean)\<close>. A \<open>char\<close> stands for a code unit
  below 256; \<open>trim\<close> removes, of those, TAB, LF, VT, FF, CR, SPACE and the no-break space.
\<close>

fun splitOn :: "char \<Rightarrow> string \<Rightarrow> string list" where
  "splitOn c [] = [[]]"
| "splitOn c (x # xs) =
     (if x = c then [] # splitOn c xs
      else (case splitOn c xs of
              w # ws \<Rightarrow> (x # w) # ws
            | [] \<Rightarrow> [[x]]))"

definition isWhiteSpace :: "char \<Rightarrow> bool" where
  "isWhiteSpace c = (of_char c \<in> {9, 10, 11, 12, 13, 32, 160 :: nat})"

definition trim :: "string \<Rightarrow> string" where
  "trim s = rev (dropWhile isWhiteSpace (rev (dropWhile isWhiteSpace s)))"

definition parseControls :: "string \<Rightarrow> string list" where
  "parseControls v = filter (\<lambda>s. s \<noteq> []) (map trim (splitOn CHR '','' v))"

definition handleMitigationControlsChange ::
  "int \<Rightarrow> string \<Rightarrow> RiskAssessment \<Rightarrow> error + RiskAssessment" where
  "handleMitigationControlsChange index v formState =
     (let updatedRisks = identifiedRisks formState in
      if 0 \<le> index \<and> index < int (length updatedRisks) then
        Inr (formState\<lparr>identifiedRisks :=
               updatedRisks[nat index :=
                 (updatedRisks ! nat index)\<lparr>mitigationControls := ControlList (parseControls v)\<rparr>]\<rparr>)
      else Inl TypeError)"

section \<open>Submitting the assessment (\<open>handleSubmit\<close>)\<close>

definition riskOrder :: "(string \<times> int) list" where
  "riskOrder = [(''Low'', 1), (''Medium'', 2), (''High'', 3), (''Critical'', 4)]"

text \<open>The callback of \<open>reduce\<close>: keep the larger of the accumulator and the item's residual risk.\<close>

definition maxRisk :: "string \<Rightarrow> RiskItem \<Rightarrow> string" where
  "maxRisk mx risk =
     (if jsGt (getProp riskOrder (residualRisk risk)) (getProp riskOrder mx)
      then residualRisk risk else mx)"

text \<open>The overall rating: \<open>identifiedRisks.reduce(..., 'Low')\<close>.\<close>

definition scoreAssessment :: "RiskItem list \<Rightarrow> string" where
  "scoreAssessment items = foldl maxRisk ''Low'' items"

text \<open>
  What the handler does to the outside: it stops the browser's own submission, and then either
  shows a notification or hands the assessment to \<open>onSubmit\<close>. It never sets the form state;
  the state after the handler is returned with the effects.
\<close>

datatype effect =
  PreventDefault
  | ShowNotification string string
  | OnSubmit RiskAssessment

definition handleSubmit :: "RiskAssessment \<Rightarrow> RiskAssessment \<times> effect list" where
  "handleSubmit formState =
     (if scope formState = [] \<or> length (identifiedRisks formState) = 0 then
        (formState,
         [PreventDefault,
          ShowNotification
            ''Please define the scope and at least one risk item for the assessment.''
            ''error''])
      else
        (formState,
         [PreventDefault,
          OnSubmit (formState\<lparr>overallRiskRating :=
                      scoreAssessment (identifiedRisks formState)\<rparr>)]))"

section \<open>The specification's vocabulary\<close>

text \<open>
  The specification speaks of two closed enumerations, the levels of likelihood and impact and
  the four risk ratings, of a rank of each level, of a step function from scores to ratings and
  of a demotion by one rating. These definitions follow its words; the theorems below compare
  the code with them. \<open>levelName\<close> and \<open>ratingName\<close> give the string the code stores for
  each value.
\<close>

datatype level = L_Low | L_Medium | L_High
datatype rating = R_Low | R_Medium | R_High | R_Critical

fun levelName :: "level \<Rightarrow> string" where
  "levelName L_Low = ''Low''"
| "levelName L_Medium = ''Medium''"
| "levelName L_High = ''High''"

fun ratingName :: "rating \<Rightarrow> string" where
  "ratingName R_Low = ''Low''"
| "ratingName R_Medium = ''Medium''"
| "ratingName R_High = ''High''"
| "ratingName R_Critical = ''Critical''"

fun spec_rank :: "level \<Rightarrow> int" where
  "spec_rank L_Low = 1"
| "spec_rank L_Medium = 2"
| "spec_rank L_High = 3"

definition spec_bucket :: "int \<Rightarrow> rating" where
  "spec_bucket score =
     (if score \<ge> 6 then R_Critical
      else if score \<ge> 4 then R_High
      else if score \<ge> 2 then R_Medium
      else R_Low)"

fun spec_demote :: "rating \<Rightarrow> rating" where
  "spec_demote R_Critical = R_High"
| "spec_demote R_High = R_Medium"
| "spec_demote R_Medium = R_Low"
| "spec_demote R_Low = R_Low"

fun spec_ord :: "rating \<Rightarrow> nat" where
  "spec_ord R_Low = 0"
| "spec_ord R_Medium = 1"
| "spec_ord R_High = 2"
| "spec_ord R_Critical = 3"

text \<open>The larger of two ratings, the accumulator first (it stays on a tie).\<close>

definition ratingMax :: "rating \<Rightarrow> rating \<Rightarrow> rating" where
  "ratingMax a r = (if spec_ord r > spec_ord a then r else a)"

text \<open>A risk item that carries a given residual risk, for the concrete instances below.\<close>

definition riskItemWith :: "string \<Rightarrow> RiskItem" where
  "riskItemWith res =
     \<lparr>itemId = ''r'', description = '''', likelihood = ''Low'', impact = ''Low'',
      inherentRisk = res, mitigationControls = ControlList [], residualRisk = res\<rparr>"

text \<open>
  The rank the code's own table \<open>riskOrder\<close> gives a rating, 0 for a string that is not a
  key of the table; \<open>isRiskKey\<close> says that a string is one of the four keys.
\<close>

definition riskRank :: "string \<Rightarrow> int" where
  "riskRank s = (case map_of riskOrder s of Some n \<Rightarrow> n | None \<Rightarrow> 0)"

definition isRiskKey :: "string \<Rightarrow> bool" where
  "isRiskKey s = (s \<in> set (map fst riskOrder))"

text \<open>
  The invariant of the data model: the two stored ratings of an item are the ones the scoring
  derives from its likelihood, its impact and its mitigation controls.
\<close>

definition derivedConsistent :: "RiskItem \<Rightarrow> bool" where
  "derivedConsistent item =
     ((inherentRisk item, residualRisk item) =
        scoreItem (likelihood item) (impact item) (hasMitigation (mitigationControls item)))"

text \<open>Concrete items and form states, for the instances below.\<close>

definition sampleItemA :: RiskItem where
  "sampleItemA =
     \<lparr>itemId = ''_1000_1'', description = ''Regulatory fines'', likelihood = ''High'',
      impact = ''Medium'', inherentRisk = ''Low'', mitigationControls = ControlList [''KYC''],
      residualRisk = ''Critical''\<rparr>"

definition sampleItemB :: RiskItem where
  "sampleItemB =
     \<lparr>itemId = ''_1001_2'', description = '''', likelihood = ''High'',
      impact = ''Medium'', inherentRisk = ''Medium'',
      mitigationControls = ControlList [''Monitoring'', ''Training''],
      residualRisk = ''Medium''\<rparr>"

definition highRiskItem :: RiskItem where
  "highRiskItem =
     \<lparr>itemId = ''_1000_1'', description = ''Regulatory fines'', likelihood = ''High'',
      impact = ''High'', inherentRisk = ''Critical'', mitigationControls = ControlList [],
      residualRisk = ''Critical''\<rparr>"

definition formWith :: "string \<Rightarrow> RiskItem list \<Rightarrow> RiskAssessment" where
  "formWith sc items =
     \<lparr>assessmentId = '''', assessmentDate = ''2024-01-01T00:00:00.000Z'',
      assessedBy = ''Current User'', scope = sc, identifiedRisks = items,
      overallRiskRating = ''Low'', mitigationPlan = '''', status = ''Pending'',
      reviewDate = ''2024-07-01T00:00:00.000Z''\<rparr>"

section \<open>Scoring one item: the code on the three levels\<close>

lemma getProp_likelihoodOrder_level:
  "getProp likelihoodOrder (levelName l) = Number (spec_rank l)"
  by (cases l) (simp_all add: getProp_def likelihoodOrder_def)

lemma getProp_impactOrder_level:
  "getProp impactOrder (levelName l) = Number (spec_rank l)"
  by (cases l) (simp_all add: getProp_def impactOrder_def)

lemma strOr_levelName: "strOr (levelName l) d = levelName l"
  by (cases l) (simp_all add: strOr_def)

lemma jsOr_rank: "jsOr (Number (spec_rank l)) (Number 0) = Number (spec_rank l)"
  by (cases l) (simp_all add: jsOr_def)

lemma inherentScore_level:
  "inherentScore (levelName l) (levelName i) = Number (spec_rank l * spec_rank i)"
  by (simp add: inherentScore_def strOr_levelName getProp_likelihoodOrder_level
      getProp_impactOrder_level jsOr_rank jsMul_def)

lemma inherentRiskOf_Number:
  "inherentRiskOf (Number n) = ratingName (spec_bucket n)"
  by (simp add: inherentRiskOf_def spec_bucket_def jsGe_def)

lemma fst_scoreItem: "fst (scoreItem l i m) = inherentRiskOf (inherentScore l i)"
  by (simp add: scoreItem_def Let_def)

lemma snd_scoreItem:
  "snd (scoreItem l i m) = residualRiskOf m (inherentRiskOf (inherentScore l i))"
  by (simp add: scoreItem_def Let_def)

lemma residualRiskOf_rating:
  "residualRiskOf True (ratingName r) = ratingName (spec_demote r)"
  "residualRiskOf False s = s"
  by (cases r; simp add: residualRiskOf_def)+

text \<open>
  C1. For all likelihoods and impacts among Low, Medium and High, the score is the product of
  the ranks (Low 1, Medium 2, High 3), it lies between 1 and 9, and the inherent risk is its
  bucket: at least 6 Critical, at least 4 High, at least 2 Medium, otherwise Low. The nine
  entries of the table follow, and the scores 4 and 6 fall into High and Critical.
\<close>

theorem scoreItem_inherent_bucket:
  "inherentScore (levelName l) (levelName i) = Number (spec_rank l * spec_rank i)
   \<and> 1 \<le> spec_rank l * spec_rank i \<and> spec_rank l * spec_rank i \<le> 9
   \<and> fst (scoreItem (levelName l) (levelName i) m)
       = ratingName (spec_bucket (spec_rank l * spec_rank i))
   \<and> fst (scoreItem ''Low'' ''Low'' m) = ''Low''
   \<and> fst (scoreItem ''Low'' ''Medium'' m) = ''Medium''
   \<and> fst (scoreItem ''Low'' ''High'' m) = ''Medium''
   \<and> fst (scoreItem ''Medium'' ''Low'' m) = ''Medium''
   \<and> fst (scoreItem ''Medium'' ''Medium'' m) = ''High''
   \<and> fst (scoreItem ''Medium'' ''High'' m) = ''Critical''
   \<and> fst (scoreItem ''High'' ''Low'' m) = ''Medium''
   \<and> fst (scoreItem ''High'' ''Medium'' m) = ''Critical''
   \<and> fst (scoreItem ''High'' ''High'' m) = ''Critical''
   \<and> inherentRiskOf (Number 4) = ''High''
   \<and> inherentRiskOf (Number 6) = ''Critical''"
proof -
  have score: "inherentScore (levelName l) (levelName i) = Number (spec_rank l * spec_rank i)"
    by (rule inherentScore_level)
  have range: "1 \<le> spec_rank l * spec_rank i \<and> spec_rank l * spec_rank i \<le> 9"
    by (cases l; cases i; simp)
  have entry: "fst (scoreItem (levelName a) (levelName b) m)
      = ratingName (spec_bucket (spec_rank a * spec_rank b))" for a b
    by (simp add: fst_scoreItem inherentScore_level inherentRiskOf_Number)
  have t1: "fst (scoreItem ''Low'' ''Low'' m) = ''Low''"
    using entry [of L_Low L_Low] by (simp add: spec_bucket_def)
  have t2: "fst (scoreItem ''Low'' ''Medium'' m) = ''Medium''"
    using entry [of L_Low L_Medium] by (simp add: spec_bucket_def)
  have t3: "fst (scoreItem ''Low'' ''High'' m) = ''Medium''"
    using entry [of L_Low L_High] by (simp add: spec_bucket_def)
  have t4: "fst (scoreItem ''Medium'' ''Low'' m) = ''Medium''"
    using entry [of L_Medium L_Low] by (simp add: spec_bucket_def)
  have t5: "fst (scoreItem ''Medium'' ''Medium'' m) = ''High''"
    using entry [of L_Medium L_Medium] by (simp add: spec_bucket_def)
  have t6: "fst (scoreItem ''Medium'' ''High'' m) = ''Critical''"
    using entry [of L_Medium L_High] by (simp add: spec_bucket_def)
  have t7: "fst (scoreItem ''High'' ''Low'' m) = ''Medium''"
    using entry [of L_High L_Low] by (simp add: spec_bucket_def)
  have t8: "fst (scoreItem ''High'' ''Medium'' m) = ''Critical''"
    using entry [of L_High L_Medium] by (simp add: spec_bucket_def)
  have t9: "fst (scoreItem ''High'' ''High'' m) = ''Critical''"
    using entry [of L_High L_High] by (simp add: spec_bucket_def)
  have edge: "inherentRiskOf (Number 4) = ''High'' \<and> inherentRiskOf (Number 6) = ''Critical''"
    by (simp add: inherentRiskOf_Number spec_bucket_def)
  from score range entry [of l i] t1 t2 t3 t4 t5 t6 t7 t8 t9 edge show ?thesis
    by blast
qed

lemma spec_ord_demote: "spec_ord (spec_demote r) = spec_ord r - 1"
  by (cases r) simp_all

text \<open>
  C2. For all likelihoods and impacts among Low, Medium and High: when the item has mitigation
  controls, the residual risk is the inherent risk demoted by one rating (Critical to High,
  High to Medium, Medium to Low, Low stays Low), that is one place lower in the order of the
  ratings unless it is Low already; when it has none, the residual risk is the inherent risk,
  and this also for strings \<open>a\<close>, \<open>b\<close> that are no levels.
\<close>

theorem scoreItem_residual_demotion:
  "fst (scoreItem (levelName l) (levelName i) True)
     = ratingName (spec_bucket (spec_rank l * spec_rank i))
   \<and> snd (scoreItem (levelName l) (levelName i) True)
     = ratingName (spec_demote (spec_bucket (spec_rank l * spec_rank i)))
   \<and> spec_ord (spec_demote (spec_bucket (spec_rank l * spec_rank i)))
     = spec_ord (spec_bucket (spec_rank l * spec_rank i)) - 1
   \<and> snd (scoreItem (levelName l) (levelName i) False)
     = fst (scoreItem (levelName l) (levelName i) False)
   \<and> snd (scoreItem a b False) = fst (scoreItem a b False)"
  by (simp add: fst_scoreItem snd_scoreItem inherentScore_level inherentRiskOf_Number
      residualRiskOf_rating spec_ord_demote)

text \<open>
  C9. The item that \<open>handleAddRiskItem\<close> appends has likelihood Low, impact Low, no mitigation
  controls, inherent risk Low and residual risk Low, and these two ratings are what the scoring
  derives from the three inputs.
\<close>

theorem handleAddRiskItem_fresh_consistent:
  "identifiedRisks (handleAddRiskItem newId prev) =
     identifiedRisks prev @
       [\<lparr>itemId = newId, description = '''', likelihood = ''Low'', impact = ''Low'',
         inherentRisk = ''Low'', mitigationControls = ControlList [],
         residualRisk = ''Low''\<rparr>]
   \<and> (let item = last (identifiedRisks (handleAddRiskItem newId prev))
      in likelihood item = ''Low'' \<and> impact item = ''Low''
         \<and> mitigationControls item = ControlList []
         \<and> inherentRisk item = ''Low'' \<and> residualRisk item = ''Low''
         \<and> scoreItem (likelihood item) (impact item) (hasMitigation (mitigationControls item))
             = (inherentRisk item, residualRisk item))"
proof -
  have "scoreItem ''Low'' ''Low'' False = (''Low'', ''Low'')"
    using inherentScore_level [of L_Low L_Low]
    by (simp add: scoreItem_def Let_def inherentRiskOf_Number spec_bucket_def residualRiskOf_def)
  then show ?thesis
    by (simp add: handleAddRiskItem_def Let_def)
qed

section \<open>The overall rating\<close>

lemma getProp_riskOrder_rating:
  "getProp riskOrder (ratingName r) = Number (int (spec_ord r) + 1)"
  by (cases r) (simp_all add: getProp_def riskOrder_def)

lemma maxRisk_rating:
  "residualRisk item = ratingName r \<Longrightarrow> maxRisk (ratingName a) item = ratingName (ratingMax a r)"
  by (simp add: maxRisk_def getProp_riskOrder_rating jsGt_def ratingMax_def)

lemma foldl_maxRisk_rating:
  "map residualRisk items = map ratingName rs \<Longrightarrow>
   foldl maxRisk (ratingName a) items = ratingName (foldl ratingMax a rs)"
proof (induction items arbitrary: a rs)
  case Nil
  then show ?case by simp
next
  case (Cons item items)
  then obtain r rs' where rs: "rs = r # rs'" "residualRisk item = ratingName r"
    "map residualRisk items = map ratingName rs'"
    by (cases rs) auto
  show ?case
    using Cons.IH [OF rs(3), of "ratingMax a r"] rs(1,2)
    by (simp add: maxRisk_rating)
qed

lemma foldl_ratingMax_mem: "foldl ratingMax a rs \<in> insert a (set rs)"
  by (induction rs arbitrary: a) (auto simp: ratingMax_def)

lemma foldl_ratingMax_ge_acc: "spec_ord a \<le> spec_ord (foldl ratingMax a rs)"
proof (induction rs arbitrary: a)
  case Nil
  then show ?case by simp
next
  case (Cons r rs)
  have "spec_ord a \<le> spec_ord (ratingMax a r)"
    by (simp add: ratingMax_def)
  also have "\<dots> \<le> spec_ord (foldl ratingMax (ratingMax a r) rs)"
    by (rule Cons.IH)
  finally show ?case by simp
qed

lemma foldl_ratingMax_upper:
  "r \<in> set rs \<Longrightarrow> spec_ord r \<le> spec_ord (foldl ratingMax a rs)"
proof (induction rs arbitrary: a)
  case Nil
  then show ?case by simp
next
  case (Cons x xs)
  show ?case
  proof (cases "r = x")
    case True
    have "spec_ord x \<le> spec_ord (ratingMax a x)"
      by (simp add: ratingMax_def)
    also have "\<dots> \<le> spec_ord (foldl ratingMax (ratingMax a x) xs)"
      by (rule foldl_ratingMax_ge_acc)
    finally show ?thesis using True by simp
  next
    case False
    with Cons.prems have "r \<in> set xs" by simp
    then show ?thesis using Cons.IH by simp
  qed
qed

lemma spec_ord_zero: "spec_ord r = 0 \<Longrightarrow> r = R_Low"
  by (cases r) simp_all

lemma foldl_ratingMax_Low_mem:
  assumes "rs \<noteq> []"
  shows "foldl ratingMax R_Low rs \<in> set rs"
proof (cases "foldl ratingMax R_Low rs = R_Low")
  case True
  from assms obtain x xs where rs: "rs = x # xs" by (cases rs) auto
  then have "spec_ord x \<le> spec_ord (foldl ratingMax R_Low rs)"
    using foldl_ratingMax_upper [of x rs R_Low] by simp
  with True have "x = R_Low" by (simp add: spec_ord_zero)
  with rs True show ?thesis by simp
next
  case False
  then show ?thesis using foldl_ratingMax_mem [of R_Low rs] by simp
qed

text \<open>
  C3. On the empty list the overall rating is Low. On a list of items whose residual risks are
  the ratings \<open>rs\<close>, it is a rating that no rating of \<open>rs\<close> exceeds in the order
  Low, Medium, High, Critical, and that occurs in \<open>rs\<close> unless \<open>rs\<close> is empty: the maximum.
\<close>

theorem scoreAssessment_maximum:
  "scoreAssessment [] = ''Low''
   \<and> (map residualRisk items = map ratingName rs \<longrightarrow>
        (\<exists>r. scoreAssessment items = ratingName r
             \<and> (rs = [] \<longrightarrow> r = R_Low)
             \<and> (rs \<noteq> [] \<longrightarrow> r \<in> set rs)
             \<and> (\<forall>r' \<in> set rs. spec_ord r' \<le> spec_ord r)))"
proof (intro conjI impI)
  show "scoreAssessment [] = ''Low''"
    by (simp add: scoreAssessment_def)
next
  assume m: "map residualRisk items = map ratingName rs"
  let ?r = "foldl ratingMax R_Low rs"
  have "scoreAssessment items = ratingName ?r"
    using foldl_maxRisk_rating [OF m, of R_Low] by (simp add: scoreAssessment_def)
  moreover have "rs = [] \<longrightarrow> ?r = R_Low" by simp
  moreover have "rs \<noteq> [] \<longrightarrow> ?r \<in> set rs"
    by (simp add: foldl_ratingMax_Low_mem)
  moreover have "\<forall>r' \<in> set rs. spec_ord r' \<le> spec_ord ?r"
    by (simp add: foldl_ratingMax_upper)
  ultimately show "\<exists>r. scoreAssessment items = ratingName r
      \<and> (rs = [] \<longrightarrow> r = R_Low) \<and> (rs \<noteq> [] \<longrightarrow> r \<in> set rs)
      \<and> (\<forall>r' \<in> set rs. spec_ord r' \<le> spec_ord r)"
    by blast
qed

theorem scoreAssessment_maximum_witness:
  "map residualRisk [riskItemWith ''Low'', riskItemWith ''High'', riskItemWith ''Medium'']
     = map ratingName [R_Low, R_High, R_Medium]
   \<and> scoreAssessment [riskItemWith ''Low'', riskItemWith ''High'', riskItemWith ''Medium'']
     = ''High''"
proof -
  let ?items = "[riskItemWith ''Low'', riskItemWith ''High'', riskItemWith ''Medium'']"
  let ?rs = "[R_Low, R_High, R_Medium]"
  have m: "map residualRisk ?items = map ratingName ?rs"
    by (simp add: riskItemWith_def)
  with scoreAssessment_maximum [of ?items ?rs]
  obtain r where r: "scoreAssessment ?items = ratingName r" "r \<in> set ?rs"
    "\<forall>r' \<in> set ?rs. spec_ord r' \<le> spec_ord r"
    by auto
  from r(3) have "spec_ord R_High \<le> spec_ord r" by simp
  with r(2) have "r = R_High" by auto
  with r(1) m show ?thesis by simp
qed

section \<open>Monotonicity of the inherent risk\<close>

lemma spec_rank_pos: "0 \<le> spec_rank l"
  by (cases l) simp_all

lemma spec_bucket_mono: "a \<le> b \<Longrightarrow> spec_ord (spec_bucket a) \<le> spec_ord (spec_bucket b)"
  by (simp add: spec_bucket_def)

lemma jsGe_riskOrder_rating:
  "jsGe (getProp riskOrder (ratingName r')) (getProp riskOrder (ratingName r))
     \<longleftrightarrow> spec_ord r \<le> spec_ord r'"
  by (simp add: getProp_riskOrder_rating jsGe_def)

text \<open>
  C6. With the impact fixed, a likelihood of higher (or equal) rank never gives a lower inherent
  risk, and the same with the roles of likelihood and impact exchanged; one step up (Low to
  Medium, Medium to High) is the case of adjacent ranks. The ratings are compared through the
  code's own table \<open>riskOrder\<close>; the comparison holds only between two of its keys.
\<close>

theorem inherentRisk_monotone:
  assumes "spec_rank l \<le> spec_rank l'"
  shows "jsGe (getProp riskOrder (fst (scoreItem (levelName l') (levelName i) m)))
           (getProp riskOrder (fst (scoreItem (levelName l) (levelName i) m)))
   \<and> jsGe (getProp riskOrder (fst (scoreItem (levelName i) (levelName l') m)))
          (getProp riskOrder (fst (scoreItem (levelName i) (levelName l) m)))"
proof -
  have inh: "fst (scoreItem (levelName a) (levelName b) m)
      = ratingName (spec_bucket (spec_rank a * spec_rank b))" for a b
    by (simp add: fst_scoreItem inherentScore_level inherentRiskOf_Number)
  have "spec_rank l * spec_rank i \<le> spec_rank l' * spec_rank i"
    using assms spec_rank_pos [of i] by (rule mult_right_mono)
  moreover have "spec_rank i * spec_rank l \<le> spec_rank i * spec_rank l'"
    using assms spec_rank_pos [of i] by (rule mult_left_mono)
  ultimately show ?thesis
    by (simp add: inh jsGe_riskOrder_rating spec_bucket_mono)
qed

text \<open>An instance: likelihood from Low to Medium at impact High, and impact likewise.\<close>

theorem inherentRisk_monotone_witness:
  "spec_rank L_Low \<le> spec_rank L_Medium
   \<and> jsGe (getProp riskOrder (fst (scoreItem ''Medium'' ''High'' False)))
          (getProp riskOrder (fst (scoreItem ''Low'' ''High'' False)))
   \<and> jsGe (getProp riskOrder (fst (scoreItem ''High'' ''Medium'' False)))
          (getProp riskOrder (fst (scoreItem ''High'' ''Low'' False)))"
  using inherentRisk_monotone [of L_Low L_Medium L_High False]
  by simp

section \<open>The overall rating does not depend on the order of the items\<close>

text \<open>
  These lemmas hold for every list of items, whatever strings their residual risks are: the
  accumulator of the \<open>reduce\<close> starts at Low and stays a key of \<open>riskOrder\<close>, and an item
  whose residual risk is no key never replaces it.
\<close>

lemma isRiskKey_cases:
  "isRiskKey s \<longleftrightarrow> s = ''Low'' \<or> s = ''Medium'' \<or> s = ''High'' \<or> s = ''Critical''"
  by (auto simp: isRiskKey_def riskOrder_def)

lemma getProp_riskOrder_key: "isRiskKey s \<Longrightarrow> getProp riskOrder s = Number (riskRank s)"
  by (auto simp: isRiskKey_cases getProp_def riskRank_def riskOrder_def)

lemma riskRank_key_pos: "isRiskKey s \<Longrightarrow> 1 \<le> riskRank s"
  by (auto simp: isRiskKey_cases riskRank_def riskOrder_def)

lemma riskRank_pos_key: "1 \<le> riskRank s \<Longrightarrow> isRiskKey s"
  by (auto simp: isRiskKey_cases riskRank_def riskOrder_def split: if_splits)

lemma riskRank_inj: "isRiskKey a \<Longrightarrow> isRiskKey b \<Longrightarrow> riskRank a = riskRank b \<Longrightarrow> a = b"
  by (auto simp: isRiskKey_cases riskRank_def riskOrder_def)

lemma jsGt_not_key: "\<not> isRiskKey s \<Longrightarrow> \<not> jsGt (getProp riskOrder s) b"
  by (auto simp: isRiskKey_cases getProp_def jsGt_def riskOrder_def)

lemma maxRisk_key:
  assumes "isRiskKey mx"
  shows "maxRisk mx item =
     (if riskRank (residualRisk item) > riskRank mx then residualRisk item else mx)"
proof (cases "isRiskKey (residualRisk item)")
  case True
  with assms show ?thesis
    by (simp add: maxRisk_def getProp_riskOrder_key jsGt_def)
next
  case False
  then have "\<not> 1 \<le> riskRank (residualRisk item)"
    using riskRank_pos_key by blast
  with riskRank_key_pos [OF assms] have "\<not> riskRank (residualRisk item) > riskRank mx"
    by simp
  with False show ?thesis
    by (simp add: maxRisk_def jsGt_not_key)
qed

lemma maxRisk_own_key: "isRiskKey mx \<Longrightarrow> isRiskKey (maxRisk mx item)"
  using riskRank_key_pos [of mx] riskRank_pos_key [of "residualRisk item"]
  by (simp add: maxRisk_key)

lemma maxRisk_rank_ge: "isRiskKey mx \<Longrightarrow> riskRank mx \<le> riskRank (maxRisk mx item)"
  by (simp add: maxRisk_key)

lemma maxRisk_rank_ge_item:
  "isRiskKey mx \<Longrightarrow> riskRank (residualRisk item) \<le> riskRank (maxRisk mx item)"
  by (simp add: maxRisk_key)

lemma foldl_maxRisk_own_key: "isRiskKey mx \<Longrightarrow> isRiskKey (foldl maxRisk mx items)"
  by (induction items arbitrary: mx) (simp_all add: maxRisk_own_key)

lemma foldl_maxRisk_ge_acc:
  "isRiskKey mx \<Longrightarrow> riskRank mx \<le> riskRank (foldl maxRisk mx items)"
proof (induction items arbitrary: mx)
  case Nil
  then show ?case by simp
next
  case (Cons item items)
  have "riskRank mx \<le> riskRank (maxRisk mx item)"
    using Cons.prems by (rule maxRisk_rank_ge)
  also have "\<dots> \<le> riskRank (foldl maxRisk (maxRisk mx item) items)"
    using Cons.prems by (intro Cons.IH maxRisk_own_key)
  finally show ?case by simp
qed

lemma foldl_maxRisk_upper:
  "isRiskKey mx \<Longrightarrow> item \<in> set items \<Longrightarrow>
   riskRank (residualRisk item) \<le> riskRank (foldl maxRisk mx items)"
proof (induction items arbitrary: mx)
  case Nil
  then show ?case by simp
next
  case (Cons x xs)
  have key: "isRiskKey (maxRisk mx x)"
    using Cons.prems(1) by (rule maxRisk_own_key)
  show ?case
  proof (cases "item = x")
    case True
    have "riskRank (residualRisk x) \<le> riskRank (maxRisk mx x)"
      using Cons.prems(1) by (rule maxRisk_rank_ge_item)
    also have "\<dots> \<le> riskRank (foldl maxRisk (maxRisk mx x) xs)"
      using key by (rule foldl_maxRisk_ge_acc)
    finally show ?thesis using True by simp
  next
    case False
    with Cons.prems(2) have "item \<in> set xs" by simp
    with key show ?thesis using Cons.IH by simp
  qed
qed

lemma foldl_maxRisk_mem:
  "isRiskKey mx \<Longrightarrow> foldl maxRisk mx items \<in> insert mx (residualRisk ` set items)"
proof (induction items arbitrary: mx)
  case Nil
  then show ?case by simp
next
  case (Cons x xs)
  have "foldl maxRisk (maxRisk mx x) xs \<in> insert (maxRisk mx x) (residualRisk ` set xs)"
    using Cons.prems by (intro Cons.IH maxRisk_own_key)
  moreover have "maxRisk mx x = mx \<or> maxRisk mx x = residualRisk x"
    by (simp add: maxRisk_def)
  ultimately show ?case by auto
qed

lemma scoreAssessment_rank_le:
  assumes "set items \<subseteq> set items'"
  shows "riskRank (scoreAssessment items) \<le> riskRank (scoreAssessment items')"
proof -
  have low: "isRiskKey ''Low''" by (simp add: isRiskKey_cases)
  from foldl_maxRisk_mem [OF low, of items]
  consider "scoreAssessment items = ''Low''"
    | item where "item \<in> set items" "scoreAssessment items = residualRisk item"
    by (auto simp: scoreAssessment_def)
  then show ?thesis
  proof cases
    case 1
    then show ?thesis
      using foldl_maxRisk_ge_acc [OF low, of items'] by (simp add: scoreAssessment_def)
  next
    case 2
    with assms have "item \<in> set items'" by blast
    then show ?thesis
      using foldl_maxRisk_upper [OF low, of item items'] 2(2)
      by (simp add: scoreAssessment_def)
  qed
qed

text \<open>
  C7. Two lists of items that are permutations of each other (the same items with the same
  multiplicities) get the same overall rating.
\<close>

theorem scoreAssessment_permutation:
  assumes "mset items = mset items'"
  shows "scoreAssessment items = scoreAssessment items'"
proof -
  from assms have s: "set items = set items'"
    by (rule mset_eq_setD)
  have low: "isRiskKey ''Low''" by (simp add: isRiskKey_cases)
  have "riskRank (scoreAssessment items) = riskRank (scoreAssessment items')"
    using scoreAssessment_rank_le [of items items'] scoreAssessment_rank_le [of items' items] s
    by simp
  moreover have "isRiskKey (scoreAssessment items)" "isRiskKey (scoreAssessment items')"
    using low by (simp_all add: scoreAssessment_def foldl_maxRisk_own_key)
  ultimately show ?thesis
    by (rule riskRank_inj [rotated 2])
qed

lemma maxRisk_riskItemWith:
  "maxRisk (ratingName a) (riskItemWith (ratingName r)) = ratingName (ratingMax a r)"
  by (rule maxRisk_rating) (simp add: riskItemWith_def)

text \<open>An instance: residual risks Low, High, Medium and Medium, Low, High both give High.\<close>

theorem scoreAssessment_permutation_witness:
  "mset [riskItemWith ''Low'', riskItemWith ''High'', riskItemWith ''Medium'']
     = mset [riskItemWith ''Medium'', riskItemWith ''Low'', riskItemWith ''High'']
   \<and> scoreAssessment [riskItemWith ''Low'', riskItemWith ''High'', riskItemWith ''Medium'']
     = scoreAssessment [riskItemWith ''Medium'', riskItemWith ''Low'', riskItemWith ''High'']
   \<and> scoreAssessment [riskItemWith ''Medium'', riskItemWith ''Low'', riskItemWith ''High'']
     = ''High''"
proof -
  let ?a = "[riskItemWith ''Low'', riskItemWith ''High'', riskItemWith ''Medium'']"
  let ?b = "[riskItemWith ''Medium'', riskItemWith ''Low'', riskItemWith ''High'']"
  have m: "mset ?a = mset ?b"
    by (simp add: add.commute)
  have v: "scoreAssessment ?b = ''High''"
    using maxRisk_riskItemWith [of R_Low R_Medium] maxRisk_riskItemWith [of R_Medium R_Low]
      maxRisk_riskItemWith [of R_Medium R_High]
    by (simp add: scoreAssessment_def ratingMax_def)
  from m scoreAssessment_permutation [OF m] v show ?thesis
    by simp
qed

section \<open>The recalculation reads three inputs only\<close>

lemma recalculate_fields:
  "inherentRisk (recalculate r)
     = fst (scoreItem (likelihood r) (impact r) (hasMitigation (mitigationControls r)))"
  "residualRisk (recalculate r)
     = snd (scoreItem (likelihood r) (impact r) (hasMitigation (mitigationControls r)))"
  "likelihood (recalculate r) = likelihood r"
  "impact (recalculate r) = impact r"
  "mitigationControls (recalculate r) = mitigationControls r"
  by (simp_all add: recalculate_def split: prod.splits)

text \<open>
  C8. The recalculation of \<open>handleRiskItemChange\<close> is a function of the item's likelihood,
  its impact and the presence of mitigation controls: two items that agree on these three get
  the same inherent and residual risk, whatever their other fields and their previous ratings
  are, and the pair is \<open>scoreItem\<close> of the three.
\<close>

theorem recalculate_deterministic:
  assumes "likelihood r1 = likelihood r2"
    and "impact r1 = impact r2"
    and "hasMitigation (mitigationControls r1) = hasMitigation (mitigationControls r2)"
  shows "inherentRisk (recalculate r1) = inherentRisk (recalculate r2)
    \<and> residualRisk (recalculate r1) = residualRisk (recalculate r2)
    \<and> (inherentRisk (recalculate r1), residualRisk (recalculate r1))
        = scoreItem (likelihood r1) (impact r1) (hasMitigation (mitigationControls r1))"
  using assms by (simp add: recalculate_fields)

text \<open>
  An instance: two items that differ in identifier, description, controls and stored ratings.
\<close>

theorem recalculate_deterministic_witness:
  "likelihood sampleItemA = likelihood sampleItemB
   \<and> impact sampleItemA = impact sampleItemB
   \<and> hasMitigation (mitigationControls sampleItemA)
       = hasMitigation (mitigationControls sampleItemB)
   \<and> sampleItemA \<noteq> sampleItemB
   \<and> inherentRisk (recalculate sampleItemA) = inherentRisk (recalculate sampleItemB)
   \<and> residualRisk (recalculate sampleItemA) = residualRisk (recalculate sampleItemB)"
proof -
  have h: "likelihood sampleItemA = likelihood sampleItemB"
    "impact sampleItemA = impact sampleItemB"
    "hasMitigation (mitigationControls sampleItemA)
       = hasMitigation (mitigationControls sampleItemB)"
    "sampleItemA \<noteq> sampleItemB"
    by (simp_all add: sampleItemA_def sampleItemB_def)
  from recalculate_deterministic [OF h(1,2,3)] h show ?thesis
    by blast
qed

section \<open>The guard of \<open>handleSubmit\<close>\<close>

text \<open>
  C10. \<open>handleSubmit\<close> never changes the form state. It calls \<open>onSubmit\<close> exactly when the
  scope is not empty and there is at least one risk item; otherwise all it does, besides
  cancelling the browser's own submission, is to show the error notification. An assessment
  handed to \<open>onSubmit\<close> is the form state with its overall rating recomputed, and has a risk
  item.
\<close>

theorem handleSubmit_guarded:
  "fst (handleSubmit formState) = formState
   \<and> ((\<exists>a. OnSubmit a \<in> set (snd (handleSubmit formState)))
        \<longleftrightarrow> scope formState \<noteq> [] \<and> identifiedRisks formState \<noteq> [])
   \<and> (scope formState = [] \<or> identifiedRisks formState = [] \<longrightarrow>
        snd (handleSubmit formState) =
          [PreventDefault,
           ShowNotification
             ''Please define the scope and at least one risk item for the assessment.''
             ''error''])
   \<and> (\<forall>a. OnSubmit a \<in> set (snd (handleSubmit formState)) \<longrightarrow>
        identifiedRisks a \<noteq> []
        \<and> a = formState\<lparr>overallRiskRating := scoreAssessment (identifiedRisks formState)\<rparr>)"
  by (auto simp: handleSubmit_def)

text \<open>
  Instances: no item, no scope (the notification both times), and a scope with one item
  (\<open>onSubmit\<close>).
\<close>

theorem handleSubmit_guarded_witness:
  "snd (handleSubmit (formWith ''Payments'' [])) =
     [PreventDefault,
      ShowNotification
        ''Please define the scope and at least one risk item for the assessment.''
        ''error'']
   \<and> snd (handleSubmit (formWith '''' [highRiskItem])) =
     [PreventDefault,
      ShowNotification
        ''Please define the scope and at least one risk item for the assessment.''
        ''error'']
   \<and> OnSubmit ((formWith ''Payments'' [highRiskItem])\<lparr>overallRiskRating :=
         scoreAssessment [highRiskItem]\<rparr>)
       \<in> set (snd (handleSubmit (formWith ''Payments'' [highRiskItem])))"
proof -
  have a: "identifiedRisks (formWith ''Payments'' []) = []"
    and b: "scope (formWith '''' [highRiskItem]) = []"
    and c: "scope (formWith ''Payments'' [highRiskItem]) \<noteq> []"
      "identifiedRisks (formWith ''Payments'' [highRiskItem]) = [highRiskItem]"
    by (simp_all add: formWith_def)
  from handleSubmit_guarded [of "formWith ''Payments'' []"] a
  have 1: "snd (handleSubmit (formWith ''Payments'' [])) =
     [PreventDefault,
      ShowNotification
        ''Please define the scope and at least one risk item for the assessment.''
        ''error'']"
    by blast
  from handleSubmit_guarded [of "formWith '''' [highRiskItem]"] b
  have 2: "snd (handleSubmit (formWith '''' [highRiskItem])) =
     [PreventDefault,
      ShowNotification
        ''Please define the scope and at least one risk item for the assessment.''
        ''error'']"
    by blast
  from handleSubmit_guarded [of "formWith ''Payments'' [highRiskItem]"] c
  obtain x where x: "OnSubmit x \<in> set (snd (handleSubmit (formWith ''Payments'' [highRiskItem])))"
    "x = (formWith ''Payments'' [highRiskItem])\<lparr>overallRiskRating :=
         scoreAssessment (identifiedRisks (formWith ''Payments'' [highRiskItem]))\<rparr>"
    by (metis list.distinct(1))
  with c(2) have 3: "OnSubmit ((formWith ''Payments'' [highRiskItem])\<lparr>overallRiskRating :=
         scoreAssessment [highRiskItem]\<rparr>)
       \<in> set (snd (handleSubmit (formWith ''Payments'' [highRiskItem])))"
    by simp
  from 1 2 3 show ?thesis by blast
qed

section \<open>Values outside the three levels\<close>

lemma rank_unknown_key:
  assumes "s \<notin> set (map fst obj)"
  shows "jsOr (getProp obj s) (Number 0) = Number 0 \<or> jsOr (getProp obj s) (Number 0) = Inherited"
proof -
  from assms have "map_of obj s = None"
    by (simp add: map_of_eq_None_iff)
  then show ?thesis
    by (simp add: getProp_def jsOr_def)
qed

lemma rank_any_key:
  "(\<exists>n. jsOr (getProp obj s) (Number 0) = Number n) \<or> jsOr (getProp obj s) (Number 0) = Inherited"
  by (cases "map_of obj s") (simp_all add: getProp_def jsOr_def)

lemma jsMul_unknown_left:
  assumes "a = Number 0 \<or> a = Inherited" and "(\<exists>n. b = Number n) \<or> b = Inherited"
  shows "jsMul a b = Number 0 \<or> jsMul a b = NaN"
  using assms by (auto simp: jsMul_def)

lemma jsMul_unknown_right:
  assumes "b = Number 0 \<or> b = Inherited" and "(\<exists>n. a = Number n) \<or> a = Inherited"
  shows "jsMul a b = Number 0 \<or> jsMul a b = NaN"
  using assms by (auto simp: jsMul_def)

lemma inherentRiskOf_zero_or_nan: "s = Number 0 \<or> s = NaN \<Longrightarrow> inherentRiskOf s = ''Low''"
  by (auto simp: inherentRiskOf_def jsGe_def)

lemma scoreItem_Low: "inherentRiskOf (inherentScore l i) = ''Low'' \<Longrightarrow> scoreItem l i m = (''Low'', ''Low'')"
  by (simp add: scoreItem_def Let_def residualRiskOf_def)

lemma scoreItem_unknown_likelihood:
  assumes "l \<notin> set (map fst likelihoodOrder)" and "l \<noteq> []"
  shows "scoreItem l i m = (''Low'', ''Low'')"
proof -
  from assms(2) have "strOr l ''Low'' = l" by (simp add: strOr_def)
  then have "inherentScore l i = Number 0 \<or> inherentScore l i = NaN"
    unfolding inherentScore_def
    using jsMul_unknown_left [OF rank_unknown_key [OF assms(1)]
        rank_any_key [of impactOrder "strOr i ''Low''"]]
    by simp
  then show ?thesis
    by (intro scoreItem_Low inherentRiskOf_zero_or_nan)
qed

lemma scoreItem_unknown_impact:
  assumes "i \<notin> set (map fst impactOrder)" and "i \<noteq> []"
  shows "scoreItem l i m = (''Low'', ''Low'')"
proof -
  from assms(2) have "strOr i ''Low'' = i" by (simp add: strOr_def)
  then have "inherentScore l i = Number 0 \<or> inherentScore l i = NaN"
    unfolding inherentScore_def
    using jsMul_unknown_right [OF rank_unknown_key [OF assms(1)]
        rank_any_key [of likelihoodOrder "strOr l ''Low''"]]
    by simp
  then show ?thesis
    by (intro scoreItem_Low inherentRiskOf_zero_or_nan)
qed

lemma scoreItem_empty:
  "scoreItem [] i m = scoreItem ''Low'' i m" "scoreItem l [] m = scoreItem l ''Low'' m"
  by (simp_all add: scoreItem_def inherentScore_def strOr_def)

lemma handleRiskItemChange_in_range:
  assumes "0 \<le> idx" and "idx < int (length (identifiedRisks fs))"
  shows "handleRiskItemChange idx fld v fs =
     Inr (fs\<lparr>identifiedRisks := (identifiedRisks fs)
            [nat idx := (if fld = F_likelihood \<or> fld = F_impact
                         then recalculate (setField fld v (identifiedRisks fs ! nat idx))
                         else setField fld v (identifiedRisks fs ! nat idx))]\<rparr>)"
  using assms by (simp add: handleRiskItemChange_def Let_def)

lemma handleRiskItemChange_out_of_range:
  "\<not> (0 \<le> idx \<and> idx < int (length (identifiedRisks fs))) \<Longrightarrow>
   handleRiskItemChange idx fld v fs = Inl TypeError"
  by (simp add: handleRiskItemChange_def Let_def)

text \<open>
  C4, as amended. The scoring has no error: a likelihood or impact that is a non-empty string
  other than Low, Medium and High gets rank 0 (or is not a number at all), and the item is
  rated Low, Low; an empty string is read as Low. The edit handler fails in one case only,
  with a \<open>TypeError\<close>, when the index names no item of the list.
\<close>

theorem scoreItem_out_of_domain:
  "((l \<notin> set (map fst likelihoodOrder) \<and> l \<noteq> []) \<or> (i \<notin> set (map fst impactOrder) \<and> i \<noteq> [])
      \<longrightarrow> scoreItem l i m = (''Low'', ''Low''))
   \<and> scoreItem [] i m = scoreItem ''Low'' i m
   \<and> scoreItem l [] m = scoreItem l ''Low'' m
   \<and> ((\<exists>fs'. handleRiskItemChange idx fld v fs = Inr fs')
        \<longleftrightarrow> 0 \<le> idx \<and> idx < int (length (identifiedRisks fs)))
   \<and> (handleRiskItemChange idx fld v fs = Inl TypeError
        \<longleftrightarrow> \<not> (0 \<le> idx \<and> idx < int (length (identifiedRisks fs))))"
proof -
  have 1: "(l \<notin> set (map fst likelihoodOrder) \<and> l \<noteq> []) \<or> (i \<notin> set (map fst impactOrder) \<and> i \<noteq> [])
      \<longrightarrow> scoreItem l i m = (''Low'', ''Low'')"
    using scoreItem_unknown_likelihood [of l i m] scoreItem_unknown_impact [of i l m]
    by blast
  have 2: "(\<exists>fs'. handleRiskItemChange idx fld v fs = Inr fs')
        \<longleftrightarrow> 0 \<le> idx \<and> idx < int (length (identifiedRisks fs))"
    using handleRiskItemChange_in_range [of idx fs fld v]
      handleRiskItemChange_out_of_range [of idx fs fld v]
    by (cases "0 \<le> idx \<and> idx < int (length (identifiedRisks fs))") simp_all
  have 3: "handleRiskItemChange idx fld v fs = Inl TypeError
        \<longleftrightarrow> \<not> (0 \<le> idx \<and> idx < int (length (identifiedRisks fs)))"
    using handleRiskItemChange_in_range [of idx fs fld v]
      handleRiskItemChange_out_of_range [of idx fs fld v]
    by (cases "0 \<le> idx \<and> idx < int (length (identifiedRisks fs))") simp_all
  from 1 2 3 scoreItem_empty [of i m] scoreItem_empty(2) [of l m] show ?thesis
    by blast
qed

text \<open>Instances: an unknown likelihood, and an impact that names an inherited member.\<close>

theorem scoreItem_out_of_domain_witness:
  "''Extreme'' \<notin> set (map fst likelihoodOrder) \<and> ''Extreme'' \<noteq> []
   \<and> scoreItem ''Extreme'' ''High'' True = (''Low'', ''Low'')
   \<and> ''toString'' \<notin> set (map fst impactOrder) \<and> ''toString'' \<noteq> []
   \<and> scoreItem ''High'' ''toString'' False = (''Low'', ''Low'')"
proof -
  have k: "''Extreme'' \<notin> set (map fst likelihoodOrder) \<and> ''Extreme'' \<noteq> []"
    "''toString'' \<notin> set (map fst impactOrder) \<and> ''toString'' \<noteq> []"
    by (simp_all add: likelihoodOrder_def impactOrder_def)
  from scoreItem_out_of_domain [of "''Extreme''" "''High''" True] k(1)
  have 1: "scoreItem ''Extreme'' ''High'' True = (''Low'', ''Low'')" by blast
  from scoreItem_out_of_domain [of "''High''" "''toString''" False] k(2)
  have 2: "scoreItem ''High'' ''toString'' False = (''Low'', ''Low'')" by blast
  from k 1 2 show ?thesis by blast
qed

text \<open>
  The claim as the specification states it (an \<open>InvalidEnum\<close> error and no rating) fails on
  the likelihood \<open>Extreme\<close>: the handler returns normally and the item is rated Low.
\<close>

theorem scoreItem_invalid_value_counterexample:
  "''Extreme'' \<notin> set (map fst likelihoodOrder)
   \<and> scoreItem ''Extreme'' ''Low'' False = (''Low'', ''Low'')
   \<and> handleRiskItemChange 0 F_likelihood ''Extreme'' (formWith ''Payments'' [highRiskItem]) =
       Inr (formWith ''Payments''
         [highRiskItem\<lparr>likelihood := ''Extreme'', inherentRisk := ''Low'',
            residualRisk := ''Low''\<rparr>])"
proof -
  have k: "''Extreme'' \<notin> set (map fst likelihoodOrder)"
    by (simp add: likelihoodOrder_def)
  have s: "scoreItem ''Extreme'' i m = (''Low'', ''Low'')" for i m
    using k by (rule scoreItem_unknown_likelihood) simp
  have "handleRiskItemChange 0 F_likelihood ''Extreme'' (formWith ''Payments'' [highRiskItem]) =
       Inr (formWith ''Payments''
         [highRiskItem\<lparr>likelihood := ''Extreme'', inherentRisk := ''Low'',
            residualRisk := ''Low''\<rparr>])"
    by (simp add: handleRiskItemChange_def Let_def formWith_def recalculate_def s
        highRiskItem_def)
  with k s show ?thesis by simp
qed

section \<open>The invariant of the derived ratings under the edits\<close>

text \<open>
  An edit of the likelihood or of the impact through \<open>handleRiskItemChange\<close> recomputes the
  two ratings, and the edited item satisfies the invariant afterwards.
\<close>

lemma handleRiskItemChange_restores_consistency:
  assumes "handleRiskItemChange idx fld v fs = Inr fs'"
    and "fld = F_likelihood \<or> fld = F_impact"
  shows "derivedConsistent (identifiedRisks fs' ! nat idx)"
proof -
  from assms(1) have r: "0 \<le> idx" "idx < int (length (identifiedRisks fs))"
    using handleRiskItemChange_out_of_range [of idx fs fld v]
    by (cases "0 \<le> idx \<and> idx < int (length (identifiedRisks fs))"; simp)+
  then have n: "nat idx < length (identifiedRisks fs)" by simp
  from assms handleRiskItemChange_in_range [OF r, of fld v]
  have "identifiedRisks fs' ! nat idx
      = recalculate (setField fld v (identifiedRisks fs ! nat idx))"
    using n by auto
  then show ?thesis
    by (simp add: derivedConsistent_def recalculate_fields)
qed

text \<open>
  The form state of the next theorem is reached from a form without items through the
  handlers: add an item, enter its description, set likelihood and impact to High.
\<close>

lemma highRiskItem_reachable:
  "handleAddRiskItem ''_1000_1'' (formWith ''Payments'' []) =
     formWith ''Payments''
       [highRiskItem\<lparr>description := [], likelihood := ''Low'', impact := ''Low'',
          inherentRisk := ''Low'', residualRisk := ''Low''\<rparr>]
   \<and> handleRiskItemChange 0 F_description ''Regulatory fines''
       (formWith ''Payments''
         [highRiskItem\<lparr>description := [], likelihood := ''Low'', impact := ''Low'',
            inherentRisk := ''Low'', residualRisk := ''Low''\<rparr>]) =
     Inr (formWith ''Payments''
       [highRiskItem\<lparr>likelihood := ''Low'', impact := ''Low'',
          inherentRisk := ''Low'', residualRisk := ''Low''\<rparr>])
   \<and> handleRiskItemChange 0 F_likelihood ''High''
       (formWith ''Payments''
         [highRiskItem\<lparr>likelihood := ''Low'', impact := ''Low'',
            inherentRisk := ''Low'', residualRisk := ''Low''\<rparr>]) =
     Inr (formWith ''Payments''
       [highRiskItem\<lparr>impact := ''Low'', inherentRisk := ''Medium'',
          residualRisk := ''Medium''\<rparr>])
   \<and> handleRiskItemChange 0 F_impact ''High''
       (formWith ''Payments''
         [highRiskItem\<lparr>impact := ''Low'', inherentRisk := ''Medium'',
            residualRisk := ''Medium''\<rparr>]) =
     Inr (formWith ''Payments'' [highRiskItem])"
proof -
  have s1: "scoreItem ''High'' ''Low'' False = (''Medium'', ''Medium'')"
    using inherentScore_level [of L_High L_Low]
    by (simp add: scoreItem_def Let_def inherentRiskOf_Number spec_bucket_def residualRiskOf_def)
  have s2: "scoreItem ''High'' ''High'' False = (''Critical'', ''Critical'')"
    using inherentScore_level [of L_High L_High]
    by (simp add: scoreItem_def Let_def inherentRiskOf_Number spec_bucket_def residualRiskOf_def)
  have a: "handleAddRiskItem ''_1000_1'' (formWith ''Payments'' []) =
     formWith ''Payments''
       [highRiskItem\<lparr>description := [], likelihood := ''Low'', impact := ''Low'',
          inherentRisk := ''Low'', residualRisk := ''Low''\<rparr>]"
    by (simp add: handleAddRiskItem_def formWith_def highRiskItem_def)
  have b: "handleRiskItemChange 0 F_description ''Regulatory fines''
       (formWith ''Payments''
         [highRiskItem\<lparr>description := [], likelihood := ''Low'', impact := ''Low'',
            inherentRisk := ''Low'', residualRisk := ''Low''\<rparr>]) =
     Inr (formWith ''Payments''
       [highRiskItem\<lparr>likelihood := ''Low'', impact := ''Low'',
          inherentRisk := ''Low'', residualRisk := ''Low''\<rparr>])"
    by (simp add: handleRiskItemChange_def Let_def formWith_def highRiskItem_def)
  have c: "handleRiskItemChange 0 F_likelihood ''High''
       (formWith ''Payments''
         [highRiskItem\<lparr>likelihood := ''Low'', impact := ''Low'',
            inherentRisk := ''Low'', residualRisk := ''Low''\<rparr>]) =
     Inr (formWith ''Payments''
       [highRiskItem\<lparr>impact := ''Low'', inherentRisk := ''Medium'',
          residualRisk := ''Medium''\<rparr>])"
    by (simp add: handleRiskItemChange_def Let_def formWith_def highRiskItem_def
        recalculate_def s1)
  have d: "handleRiskItemChange 0 F_impact ''High''
       (formWith ''Payments''
         [highRiskItem\<lparr>impact := ''Low'', inherentRisk := ''Medium'',
            residualRisk := ''Medium''\<rparr>]) =
     Inr (formWith ''Payments'' [highRiskItem])"
    by (simp add: handleRiskItemChange_def Let_def formWith_def highRiskItem_def
        recalculate_def s2)
  from a b c d show ?thesis by blast
qed

text \<open>
  C5. \<open>handleMitigationControlsChange\<close> stores the new controls and recomputes nothing. On an
  item with likelihood High, impact High, no controls and both ratings Critical (which
  satisfies the invariant), entering the control \<open>KYC\<close> leaves the residual risk at Critical,
  while the scoring derives High from the item's fields: the invariant is broken.
\<close>

theorem handleMitigationControlsChange_stale_residual:
  "derivedConsistent highRiskItem
   \<and> handleMitigationControlsChange 0 ''KYC'' (formWith ''Payments'' [highRiskItem]) =
       Inr (formWith ''Payments'' [highRiskItem\<lparr>mitigationControls := ControlList [''KYC'']\<rparr>])
   \<and> residualRisk (highRiskItem\<lparr>mitigationControls := ControlList [''KYC'']\<rparr>) = ''Critical''
   \<and> scoreItem ''High'' ''High'' (hasMitigation (ControlList [''KYC''])) = (''Critical'', ''High'')
   \<and> \<not> derivedConsistent (highRiskItem\<lparr>mitigationControls := ControlList [''KYC'']\<rparr>)"
proof -
  have s: "scoreItem ''High'' ''High'' m = (''Critical'', residualRiskOf m ''Critical'')" for m
    using inherentScore_level [of L_High L_High]
    by (simp add: scoreItem_def Let_def inherentRiskOf_Number spec_bucket_def)
  have p: "parseControls ''KYC'' = [''KYC'']"
    by (simp add: parseControls_def trim_def isWhiteSpace_def)
  have 1: "derivedConsistent highRiskItem"
    by (simp add: derivedConsistent_def highRiskItem_def s residualRiskOf_def)
  have 2: "handleMitigationControlsChange 0 ''KYC'' (formWith ''Payments'' [highRiskItem]) =
       Inr (formWith ''Payments'' [highRiskItem\<lparr>mitigationControls := ControlList [''KYC'']\<rparr>])"
    by (simp add: handleMitigationControlsChange_def Let_def formWith_def p)
  have 3: "residualRisk (highRiskItem\<lparr>mitigationControls := ControlList [''KYC'']\<rparr>) = ''Critical''"
    by (simp add: highRiskItem_def)
  have 4: "scoreItem ''High'' ''High'' (hasMitigation (ControlList [''KYC''])) = (''Critical'', ''High'')"
    by (simp add: s residualRiskOf_def)
  have 5: "\<not> derivedConsistent (highRiskItem\<lparr>mitigationControls := ControlList [''KYC'']\<rparr>)"
    by (simp add: derivedConsistent_def highRiskItem_def s residualRiskOf_def)
  from 1 2 3 4 5 show ?thesis by blast
qed

end
